theory Spec2Isabelle
  imports Main "HOL-Library.Word"
begin

section \<open>Data model\<close>

text \<open>
  The Go package \<open>cluster\<close> of replication-manager: the aggregate predicates of
  \<open>Cluster\<close> and the accessors of \<open>ServerMonitor\<close> (file \<open>cluster/srv_get.go\<close>).
  A Go slice that the code compares with \<open>nil\<close> is a \<open>list option\<close>: \<open>None\<close> is the
  nil slice, \<open>Some []\<close> a slice that is present and empty. \<open>range\<close> over either runs
  no iteration.
\<close>

definition slice_elems :: "'a list option \<Rightarrow> 'a list" where
  "slice_elems s = (case s of None \<Rightarrow> [] | Some xs \<Rightarrow> xs)"

text \<open>\<open>sql.NullString\<close> and \<open>sql.NullInt64\<close> of Go's \<open>database/sql\<close>.\<close>

record NullString =
  NullString_String :: string
  NullString_Valid :: bool

record NullInt64 =
  NullInt64_Int64 :: "64 word"
  NullInt64_Valid :: bool

text \<open>
  Modelled from the spec: \<open>dbhelper.SlaveStatus\<close>, the replication status record, is
  declared outside the given sources. The fields are those that \<open>srv_get.go\<close> reads
  (channel name, upstream numeric server identifier, seconds behind upstream).
\<close>

record SlaveStatus =
  ConnectionName :: NullString
  MasterServerID :: "64 word"
  SecondsBehindMaster :: NullInt64

text \<open>
  Modelled from the spec: the connection security state of a node, an enumeration
  of Current, Old and None; the constants are declared outside the given sources.
\<close>

datatype TLSConfig = ConstTLSCurrentConfig | ConstTLSOldConfig | ConstTLSNoConfig

text \<open>
  Modelled from the spec: the struct \<open>ServerMonitor\<close> is declared outside the given
  sources. The fields are those the modelled functions read or write; the three
  cookies are the independent boolean flags of the spec's data model.
\<close>

record ServerMonitor =
  URL :: string
  Name :: string
  State :: string
  ServerID :: "64 word"
  InCaptureMode :: bool
  ReplicationSourceName :: string
  Replications :: "SlaveStatus list option"
  TLSConfigUsed :: TLSConfig
  DSN :: string
  ProvisionCookie :: bool
  RestartCookie :: bool
  ReprovCookie :: bool

record Proxy =
  Proxy_State :: string
  Proxy_ProvisionCookie :: bool
  Proxy_RestartCookie :: bool
  Proxy_ReprovCookie :: bool

record Config =
  ProvOrchestrator :: string
  Hosts :: string
  IgnoreSrv :: string
  MonitorCapture :: bool
  MasterSlavePgStream :: bool
  MasterSlavePgLogical :: bool

record Cluster =
  Conf :: Config
  Servers :: "ServerMonitor list option"
  Proxies :: "Proxy list"
  IsNotMonitoring :: bool
  HaveDBTLSCert :: bool

text \<open>
  Modelled from the spec: the value of \<open>config.ConstOrchestratorOnPremise\<close>, which the
  spec writes "on-premise", and the health states \<open>stateFailed\<close> and \<open>stateSuspect\<close>;
  the constants are declared outside the given sources.
\<close>

definition ConstOrchestratorOnPremise :: string where
  "ConstOrchestratorOnPremise = ''on-premise''"

definition stateFailed :: string where
  "stateFailed = ''Failed''"

definition stateSuspect :: string where
  "stateSuspect = ''Suspect''"

text \<open>
  Modelled from the spec: the cookie accessors of nodes and proxies
  (\<open>HasProvisionCookie\<close>, \<open>SetProvisionCookie\<close>, \<open>HasRestartCookie\<close>,
  \<open>HasReprovCookie\<close>) are defined outside the given sources; each cookie is a boolean
  flag, and setting a cookie that is set already changes nothing.
\<close>

definition HasProvisionCookie :: "ServerMonitor \<Rightarrow> bool" where
  "HasProvisionCookie server = ProvisionCookie server"

definition SetProvisionCookie :: "ServerMonitor \<Rightarrow> ServerMonitor" where
  "SetProvisionCookie server = server\<lparr>ProvisionCookie := True\<rparr>"

definition HasRestartCookie :: "ServerMonitor \<Rightarrow> bool" where
  "HasRestartCookie server = RestartCookie server"

definition HasReprovCookie :: "ServerMonitor \<Rightarrow> bool" where
  "HasReprovCookie server = ReprovCookie server"

definition Proxy_HasProvisionCookie :: "Proxy \<Rightarrow> bool" where
  "Proxy_HasProvisionCookie px = Proxy_ProvisionCookie px"

definition Proxy_SetProvisionCookie :: "Proxy \<Rightarrow> Proxy" where
  "Proxy_SetProvisionCookie px = px\<lparr>Proxy_ProvisionCookie := True\<rparr>"

section \<open>Go's \<open>strings.Split\<close> with a one-byte separator\<close>

text \<open>
  \<open>strings.Split(s, sep)\<close> cuts \<open>s\<close> at every occurrence of \<open>sep\<close> and returns the
  pieces, the empty ones too; a string without \<open>sep\<close>, the empty string included, gives
  the one-element slice holding \<open>s\<close>. The sources call it with \<open>","\<close> and \<open>"."\<close> only.
  The loop reads \<open>s\<close> from the left, the piece in progress in \<open>piece\<close>, and closes
  the piece at each separator and at the end of \<open>s\<close>.
\<close>

fun split_loop :: "char \<Rightarrow> string \<Rightarrow> string \<Rightarrow> string list" where
  "split_loop sep piece [] = [piece]"
| "split_loop sep piece (c # cs) =
     (if c = sep then piece # split_loop sep [] cs else split_loop sep (piece @ [c]) cs)"

definition strings_Split :: "string \<Rightarrow> char \<Rightarrow> string list" where
  "strings_Split s sep = split_loop sep [] s"

fun strings_Join :: "string list \<Rightarrow> char \<Rightarrow> string" where
  "strings_Join [] sep = []"
| "strings_Join [w] sep = w"
| "strings_Join (w # v # ws) sep = w @ sep # strings_Join (v # ws) sep"

section \<open>Aggregate predicates of the cluster\<close>

subsection \<open>\<open>IsProvisioned\<close>\<close>

text \<open>
  The two loops of \<open>IsProvisioned\<close> have one shape: an element without the provision
  cookie gets it when it is running, and stops the function with \<open>false\<close> when it is
  not. The elements are pointers in Go, so the cookies set before an early return stay
  set: the loop returns the elements as it leaves them. \<open>IsRunning\<close> is defined outside
  the given sources and is a parameter, \<open>running\<close>. The log line is not modelled.
\<close>

fun provision_loop ::
  "('a \<Rightarrow> bool) \<Rightarrow> ('a \<Rightarrow> bool) \<Rightarrow> ('a \<Rightarrow> 'a) \<Rightarrow> 'a list \<Rightarrow> bool \<times> 'a list" where
  "provision_loop has running set_cookie [] = (True, [])"
| "provision_loop has running set_cookie (x # xs) =
     (if \<not> has x then
        (if running x then
           (case provision_loop has running set_cookie xs of
              (ok, xs') \<Rightarrow> (ok, set_cookie x # xs'))
         else (False, x # xs))
      else
        (case provision_loop has running set_cookie xs of
           (ok, xs') \<Rightarrow> (ok, x # xs')))"

definition IsProvisioned ::
  "(ServerMonitor \<Rightarrow> bool) \<Rightarrow> (Proxy \<Rightarrow> bool) \<Rightarrow> Cluster \<Rightarrow> bool \<times> Cluster" where
  "IsProvisioned IsRunning Proxy_IsRunning cluster =
     (if ProvOrchestrator (Conf cluster) = ConstOrchestratorOnPremise then (True, cluster)
      else if Hosts (Conf cluster) = [] then (False, cluster)
      else
        (case provision_loop HasProvisionCookie IsRunning SetProvisionCookie
                (slice_elems (Servers cluster)) of
           (ok, dbs) \<Rightarrow>
             (let cluster1 = cluster\<lparr>Servers := map_option (\<lambda>_. dbs) (Servers cluster)\<rparr>
              in if \<not> ok then (False, cluster1)
                 else
                   (case provision_loop Proxy_HasProvisionCookie Proxy_IsRunning
                           Proxy_SetProvisionCookie (Proxies cluster1) of
                      (okp, pxs) \<Rightarrow> (okp, cluster1\<lparr>Proxies := pxs\<rparr>)))))"

subsection \<open>Host lists\<close>

fun host_loop :: "ServerMonitor \<Rightarrow> string list \<Rightarrow> bool" where
  "host_loop server [] = False"
| "host_loop server (ihost # ihosts) =
     (if URL server = ihost \<or> Name server = ihost then True else host_loop server ihosts)"

definition IsInIgnoredHosts :: "Cluster \<Rightarrow> ServerMonitor \<Rightarrow> bool" where
  "IsInIgnoredHosts cluster server =
     host_loop server (strings_Split (IgnoreSrv (Conf cluster)) CHR '','')"

subsection \<open>Capture mode\<close>

fun capture_loop :: "ServerMonitor list \<Rightarrow> bool" where
  "capture_loop [] = False"
| "capture_loop (server # servers) =
     (if InCaptureMode server then True else capture_loop servers)"

definition IsInCaptureMode :: "Cluster \<Rightarrow> bool" where
  "IsInCaptureMode cluster =
     (if \<not> MonitorCapture (Conf cluster) \<or> IsNotMonitoring cluster
         \<or> length (slice_elems (Servers cluster)) > 0
      then False
      else capture_loop (slice_elems (Servers cluster)))"

subsection \<open>Node states and restart cookies\<close>

fun all_up_loop :: "ServerMonitor list \<Rightarrow> bool" where
  "all_up_loop [] = True"
| "all_up_loop (s # ss) =
     (if State s = stateFailed \<or> State s = stateSuspect then False else all_up_loop ss)"

definition HasAllDbUp :: "Cluster \<Rightarrow> bool" where
  "HasAllDbUp cluster =
     (case Servers cluster of None \<Rightarrow> False | Some ss \<Rightarrow> all_up_loop ss)"

fun restart_loop :: "ServerMonitor list \<Rightarrow> bool" where
  "restart_loop [] = False"
| "restart_loop (s # ss) = (if HasRestartCookie s then True else restart_loop ss)"

definition HasRequestDBRestart :: "Cluster \<Rightarrow> bool" where
  "HasRequestDBRestart cluster =
     (case Servers cluster of None \<Rightarrow> False | Some ss \<Rightarrow> restart_loop ss)"

fun rolling_restart_loop :: "bool \<Rightarrow> ServerMonitor list \<Rightarrow> bool" where
  "rolling_restart_loop ret [] = ret"
| "rolling_restart_loop ret (s # ss) =
     (if \<not> HasRestartCookie s then False else rolling_restart_loop ret ss)"

definition HasRequestDBRollingRestart :: "Cluster \<Rightarrow> bool" where
  "HasRequestDBRollingRestart cluster =
     (let ret = True
      in case Servers cluster of None \<Rightarrow> False | Some ss \<Rightarrow> rolling_restart_loop ret ss)"

fun rolling_reprov_loop :: "bool \<Rightarrow> ServerMonitor list \<Rightarrow> bool" where
  "rolling_reprov_loop ret [] = ret"
| "rolling_reprov_loop ret (s # ss) =
     (if \<not> HasReprovCookie s then False else rolling_reprov_loop ret ss)"

definition HasRequestDBRollingReprov :: "Cluster \<Rightarrow> bool" where
  "HasRequestDBRollingReprov cluster =
     (let ret = True
      in case Servers cluster of None \<Rightarrow> False | Some ss \<Rightarrow> rolling_reprov_loop ret ss)"

section \<open>Accessors of a node (\<open>cluster/srv_get.go\<close>)\<close>

text \<open>An error value made by \<open>errors.New\<close> or returned by the database driver.\<close>

datatype error = errors_New string

subsection \<open>\<open>GetSlaveStatus\<close>, \<open>GetReplicationDelay\<close>, \<open>GetSibling\<close>\<close>

fun slave_status_loop :: "SlaveStatus list \<Rightarrow> string \<Rightarrow> SlaveStatus option" where
  "slave_status_loop [] name = None"
| "slave_status_loop (ss # rest) name =
     (if NullString_String (ConnectionName ss) = name then Some ss
      else slave_status_loop rest name)"

definition GetSlaveStatus :: "ServerMonitor \<Rightarrow> string \<Rightarrow> error + SlaveStatus" where
  "GetSlaveStatus server name =
     (case Replications server of
        None \<Rightarrow> Inl (errors_New ''Empty replications channels'')
      | Some reps \<Rightarrow>
          (case slave_status_loop reps name of
             Some ss \<Rightarrow> Inr ss
           | None \<Rightarrow> Inl (errors_New ''Empty replications channels'')))"

definition GetReplicationServerID :: "ServerMonitor \<Rightarrow> 64 word" where
  "GetReplicationServerID server =
     (case GetSlaveStatus server (ReplicationSourceName server) of
        Inl sserr \<Rightarrow> 0
      | Inr ss \<Rightarrow> MasterServerID ss)"

text \<open>The result is an \<open>int64\<close>: a 64-bit word, read as a signed number by \<open>sint\<close>.\<close>

definition GetReplicationDelay :: "ServerMonitor \<Rightarrow> 64 word" where
  "GetReplicationDelay server =
     (case GetSlaveStatus server (ReplicationSourceName server) of
        Inl sserr \<Rightarrow> 0
      | Inr ss \<Rightarrow>
          (if NullInt64_Valid (SecondsBehindMaster ss) = False then 0
           else NullInt64_Int64 (SecondsBehindMaster ss)))"

text \<open>
  \<open>server.ClusterGroup\<close> is the cluster that owns the node; the model takes it as an
  argument. The result is the node found, \<open>None\<close> for Go's \<open>nil\<close>.
\<close>

fun sibling_loop ::
  "ServerMonitor \<Rightarrow> SlaveStatus \<Rightarrow> ServerMonitor list \<Rightarrow> ServerMonitor option" where
  "sibling_loop server ssserver [] = None"
| "sibling_loop server ssserver (sl # rest) =
     (case GetSlaveStatus sl (ReplicationSourceName sl) of
        Inl err \<Rightarrow> sibling_loop server ssserver rest
      | Inr sssib \<Rightarrow>
          (if MasterServerID sssib = MasterServerID ssserver \<and> ServerID sl \<noteq> ServerID server
           then Some sl
           else sibling_loop server ssserver rest))"

definition GetSibling :: "Cluster \<Rightarrow> ServerMonitor \<Rightarrow> ServerMonitor option" where
  "GetSibling ClusterGroup server =
     (case GetSlaveStatus server (ReplicationSourceName server) of
        Inl err \<Rightarrow> None
      | Inr ssserver \<Rightarrow> sibling_loop server ssserver (slice_elems (Servers ClusterGroup)))"

subsection \<open>\<open>GetPrometheusMetrics\<close>\<close>

text \<open>
  An index expression \<open>v[i]\<close> panics when \<open>i\<close> is not below \<open>len(v)\<close>. The metrics are
  the result of \<open>GetDatabaseMetrics\<close>, which is outside the given sources: the model
  takes them as its argument. A metric has a name and a value, both strings.
\<close>

datatype panic = IndexOutOfRange

definition index :: "'a list \<Rightarrow> nat \<Rightarrow> panic + 'a" where
  "index v i = (if i < length v then Inr (v ! i) else Inl IndexOutOfRange)"

record Metric =
  Metric_Name :: string
  Metric_Value :: string

definition metric_line :: "Metric \<Rightarrow> panic + string" where
  "metric_line m =
     (let v = strings_Split (Metric_Name m) CHR ''.'' in
      case index v 2 of
        Inl p \<Rightarrow> Inl p
      | Inr v2 \<Rightarrow>
          (if v2 = ''pfs'' then
             (case index v 3 of
                Inl p \<Rightarrow> Inl p
              | Inr v3 \<Rightarrow>
                  (case index v 1 of
                     Inl p \<Rightarrow> Inl p
                   | Inr v1 \<Rightarrow>
                       Inr (v2 @ ''_'' @ v3 @ ''{instance='' @ [CHR 0x22] @ v1
                            @ [CHR 0x22] @ ''} '' @ Metric_Value m @ [CHR 0x0A])))
           else
             (case index v 1 of
                Inl p \<Rightarrow> Inl p
              | Inr v1 \<Rightarrow>
                  Inr (v2 @ ''{instance='' @ [CHR 0x22] @ v1
                       @ [CHR 0x22] @ ''} '' @ Metric_Value m @ [CHR 0x0A]))))"

fun prometheus_loop :: "string \<Rightarrow> Metric list \<Rightarrow> panic + string" where
  "prometheus_loop s [] = Inr s"
| "prometheus_loop s (m # metrics) =
     (case metric_line m of
        Inl p \<Rightarrow> Inl p
      | Inr line \<Rightarrow> prometheus_loop (s @ line) metrics)"

definition GetPrometheusMetrics :: "Metric list \<Rightarrow> panic + string" where
  "GetPrometheusMetrics metrics = prometheus_loop [] metrics"

subsection \<open>\<open>GetNewDBConn\<close>\<close>

text \<open>
  \<open>sqlx.Connect\<close> is the outside world. The model takes it as \<open>connect\<close>, which gives
  the outcome of the attempt with a given number (0 for the first attempt of the call),
  driver name and connection string: an error, or a connection handle. A handle records
  the maximal lifetime set on it, in seconds, 0 when none was set.

  Modelled from the spec: \<open>SetDSN\<close> is defined outside the given sources; it rebuilds
  the connection string of the node from the node's fields, the security state among
  them, and changes nothing else. The builder is the parameter \<open>build\<close>.

  \<open>SetState\<close> raises an alert on the cluster; the model returns the codes raised.
\<close>

record DB =
  driverName :: string
  dataSourceName :: string
  ConnMaxLifetime :: nat

definition SetConnMaxLifetime :: "DB \<Rightarrow> nat \<Rightarrow> DB" where
  "SetConnMaxLifetime conn d = conn\<lparr>ConnMaxLifetime := d\<rparr>"

definition SetDSN :: "(ServerMonitor \<Rightarrow> string) \<Rightarrow> ServerMonitor \<Rightarrow> ServerMonitor" where
  "SetDSN build server = server\<lparr>DSN := build server\<rparr>"

definition GetNewDBConn ::
  "(nat \<Rightarrow> string \<Rightarrow> string \<Rightarrow> error + DB) \<Rightarrow> (ServerMonitor \<Rightarrow> string) \<Rightarrow>
   Cluster \<Rightarrow> ServerMonitor \<Rightarrow> (error + DB) \<times> ServerMonitor \<times> string list" where
  "GetNewDBConn connect build ClusterGroup server =
     (if MasterSlavePgStream (Conf ClusterGroup) \<or> MasterSlavePgLogical (Conf ClusterGroup)
      then (connect 0 ''postgres'' (DSN server), server, [])
      else
        (case connect 0 ''mysql'' (DSN server) of
           Inr conn \<Rightarrow> (Inr conn, server, [])
         | Inl err \<Rightarrow>
             (if \<not> HaveDBTLSCert ClusterGroup then (Inl err, server, [])
              else
                (let server1 = SetDSN build (server\<lparr>TLSConfigUsed := ConstTLSOldConfig\<rparr>)
                 in case connect 1 ''mysql'' (DSN server1) of
                      Inr conn1 \<Rightarrow>
                        (let server2 = server1\<lparr>TLSConfigUsed := ConstTLSCurrentConfig\<rparr>;
                             conn2 = SetConnMaxLifetime conn1 3595;
                             server3 = SetDSN build server2
                         in (Inr conn2, server3, [''ERR00080'']))
                    | Inl err1 \<Rightarrow>
                        (let server2 = SetDSN build (server1\<lparr>TLSConfigUsed := ConstTLSNoConfig\<rparr>);
                             res = connect 2 ''mysql'' (DSN server2);
                             server3 = SetDSN build (server2\<lparr>TLSConfigUsed := ConstTLSCurrentConfig\<rparr>)
                         in (res, server3, []))))))"

section \<open>Example clusters\<close>

text \<open>
  The inputs at which the theorems below are evaluated: a configuration with an
  orchestrator other than on-premise, nodes that replicate from the upstream with
  server identifier 7 on the default channel, and a cluster built from a node list.
\<close>

definition example_conf :: "string \<Rightarrow> string \<Rightarrow> string \<Rightarrow> Config" where
  "example_conf orchestrator hosts ignored =
     \<lparr>ProvOrchestrator = orchestrator, Hosts = hosts, IgnoreSrv = ignored,
      MonitorCapture = True, MasterSlavePgStream = False, MasterSlavePgLogical = False\<rparr>"

definition example_channel :: "64 word \<Rightarrow> SlaveStatus" where
  "example_channel delay =
     \<lparr>ConnectionName = \<lparr>NullString_String = [], NullString_Valid = True\<rparr>,
      MasterServerID = 7,
      SecondsBehindMaster = \<lparr>NullInt64_Int64 = delay, NullInt64_Valid = True\<rparr>\<rparr>"

definition example_node :: "string \<Rightarrow> 64 word \<Rightarrow> bool \<Rightarrow> 64 word \<Rightarrow> ServerMonitor" where
  "example_node name sid cookie delay =
     \<lparr>URL = name @ '':3306'', Name = name, State = ''Running'', ServerID = sid,
      InCaptureMode = True, ReplicationSourceName = [],
      Replications = Some [example_channel delay],
      TLSConfigUsed = ConstTLSCurrentConfig, DSN = name @ '':3306&tls=tlsconfig'',
      ProvisionCookie = cookie, RestartCookie = True, ReprovCookie = True\<rparr>"

definition example_proxy :: Proxy where
  "example_proxy =
     \<lparr>Proxy_State = ''Running'', Proxy_ProvisionCookie = False,
      Proxy_RestartCookie = False, Proxy_ReprovCookie = False\<rparr>"

definition example_cluster :: "Config \<Rightarrow> ServerMonitor list option \<Rightarrow> Cluster" where
  "example_cluster conf servers =
     \<lparr>Conf = conf, Servers = servers, Proxies = [example_proxy],
      IsNotMonitoring = False, HaveDBTLSCert = True\<rparr>"

definition example_IsRunning :: "ServerMonitor \<Rightarrow> bool" where
  "example_IsRunning server = (State server = ''Running'')"

definition example_Proxy_IsRunning :: "Proxy \<Rightarrow> bool" where
  "example_Proxy_IsRunning px = (Proxy_State px = ''Running'')"

text \<open>
  A connection string builder that appends the security state to the URL, and a
  database that accepts the old certificate only.
\<close>

definition example_build :: "ServerMonitor \<Rightarrow> string" where
  "example_build server =
     URL server @
       (case TLSConfigUsed server of
          ConstTLSCurrentConfig \<Rightarrow> ''&tls=tlsconfig''
        | ConstTLSOldConfig \<Rightarrow> ''&tls=tlsconfigold''
        | ConstTLSNoConfig \<Rightarrow> [])"

definition example_connect :: "nat \<Rightarrow> string \<Rightarrow> string \<Rightarrow> error + DB" where
  "example_connect attempt driver dsn =
     (if dsn = ''db1:3306&tls=tlsconfigold''
      then Inr \<lparr>driverName = driver, dataSourceName = dsn, ConnMaxLifetime = 0\<rparr>
      else Inl (errors_New ''x509: certificate signed by unknown authority''))"

definition example_metric :: "string \<Rightarrow> Metric" where
  "example_metric name = \<lparr>Metric_Name = name, Metric_Value = ''1''\<rparr>"

section \<open>The loops as quantifiers\<close>

lemma all_up_loop_iff:
  "all_up_loop ss = (\<forall>s\<in>set ss. State s \<noteq> stateFailed \<and> State s \<noteq> stateSuspect)"
  by (induction ss) auto

lemma restart_loop_iff: "restart_loop ss = (\<exists>s\<in>set ss. HasRestartCookie s)"
  by (induction ss) auto

lemma rolling_restart_loop_iff:
  "rolling_restart_loop ret ss = (ret \<and> (\<forall>s\<in>set ss. HasRestartCookie s))"
  by (induction ss) auto

lemma rolling_reprov_loop_iff:
  "rolling_reprov_loop ret ss = (ret \<and> (\<forall>s\<in>set ss. HasReprovCookie s))"
  by (induction ss) auto

lemma capture_loop_iff: "capture_loop ss = (\<exists>s\<in>set ss. InCaptureMode s)"
  by (induction ss) auto

lemma host_loop_iff:
  "host_loop server hs = (URL server \<in> set hs \<or> Name server \<in> set hs)"
  by (induction hs) auto

lemma provision_loop_fst:
  "fst (provision_loop has running set_cookie xs) = (\<forall>x\<in>set xs. has x \<or> running x)"
  by (induction xs) (auto split: prod.splits)

lemma provision_loop_snd:
  assumes "\<And>x. has (set_cookie x)"
    and "fst (provision_loop has running set_cookie xs)"
  shows "\<forall>y\<in>set (snd (provision_loop has running set_cookie xs)). has y"
  using assms(2)
proof (induction xs)
  case Nil
  then show ?case by simp
next
  case (Cons x xs)
  then show ?case
    using assms(1) by (auto split: prod.splits if_splits)
qed

lemma provision_loop_length:
  "length (snd (provision_loop has running set_cookie xs)) = length xs"
  by (induction xs) (auto split: prod.splits)

lemma slave_status_loop_Some:
  "slave_status_loop reps name = Some ss \<Longrightarrow>
     ss \<in> set reps \<and> NullString_String (ConnectionName ss) = name"
  by (induction reps) (auto split: if_splits)

lemma slave_status_loop_None:
  "(slave_status_loop reps name = None) =
     (\<forall>ss\<in>set reps. NullString_String (ConnectionName ss) \<noteq> name)"
  by (induction reps) auto

lemma sibling_loop_Some:
  "sibling_loop server ssserver xs = Some sl \<Longrightarrow>
     sl \<in> set xs \<and> ServerID sl \<noteq> ServerID server \<and>
     (\<exists>sssib. GetSlaveStatus sl (ReplicationSourceName sl) = Inr sssib \<and>
        MasterServerID sssib = MasterServerID ssserver)"
  by (induction xs) (auto split: sum.splits if_splits)

lemma sibling_loop_None:
  "sibling_loop server ssserver xs = None \<Longrightarrow> x \<in> set xs \<Longrightarrow>
     GetSlaveStatus x (ReplicationSourceName x) = Inr sx \<Longrightarrow>
     MasterServerID sx = MasterServerID ssserver \<Longrightarrow> ServerID x = ServerID server"
  by (induction xs) (auto split: sum.splits if_splits)

section \<open>\<open>strings.Split\<close> cuts at every separator\<close>

text \<open>
  The pieces hold no separator, there is one more piece than there are separators, and
  joining the pieces with the separator gives the string back: the result is the list
  of the separated entries, and of nothing else.
\<close>

lemma split_loop_not_Nil: "split_loop sep piece s \<noteq> []"
  by (induction s arbitrary: piece) auto

lemma split_loop_no_sep:
  "w \<in> set (split_loop sep piece s) \<Longrightarrow> sep \<notin> set piece \<Longrightarrow> sep \<notin> set w"
proof (induction s arbitrary: piece)
  case Nil
  then show ?case by simp
next
  case (Cons c cs)
  show ?case
  proof (cases "c = sep")
    case True
    with Cons.prems have "w = piece \<or> w \<in> set (split_loop sep [] cs)" by simp
    then show ?thesis
    proof
      assume "w = piece"
      with Cons.prems(2) show ?thesis by simp
    next
      assume "w \<in> set (split_loop sep [] cs)"
      then show ?thesis by (rule Cons.IH) simp
    qed
  next
    case False
    with Cons.prems have "w \<in> set (split_loop sep (piece @ [c]) cs)" by simp
    then show ?thesis
      by (rule Cons.IH) (use False Cons.prems(2) in auto)
  qed
qed

lemma strings_Join_Cons_Cons:
  "ws \<noteq> [] \<Longrightarrow> strings_Join (w # ws) sep = w @ sep # strings_Join ws sep"
  by (cases ws) auto

lemma strings_Join_split_loop: "strings_Join (split_loop sep piece s) sep = piece @ s"
  by (induction s arbitrary: piece) (simp_all add: strings_Join_Cons_Cons split_loop_not_Nil)

lemma split_loop_length:
  "length (split_loop sep piece s) = Suc (length (filter (\<lambda>c. c = sep) s))"
  by (induction s arbitrary: piece) auto

lemma strings_Split_not_Nil: "strings_Split s sep \<noteq> []"
  by (simp add: strings_Split_def split_loop_not_Nil)

lemma strings_Split_no_sep: "w \<in> set (strings_Split s sep) \<Longrightarrow> sep \<notin> set w"
  unfolding strings_Split_def by (erule split_loop_no_sep) simp

lemma strings_Join_Split: "strings_Join (strings_Split s sep) sep = s"
  by (simp add: strings_Split_def strings_Join_split_loop)

lemma strings_Split_length:
  "length (strings_Split s sep) = Suc (length (filter (\<lambda>c. c = sep) s))"
  by (simp add: strings_Split_def split_loop_length)

section \<open>The aggregate predicates\<close>

text \<open>
  C1 (amended). \<open>IsProvisioned\<close> returns true at once, whatever the nodes and proxies
  are and without changing any of them, when the provisioning backend is on-premise.
  When the backend is another one and the configured hosts list is the empty string it
  returns false at once, again without looking at a node or a proxy. Otherwise it
  returns true exactly when every node and every proxy has the provision cookie or is
  running, and then every node and every proxy has the cookie afterwards.
\<close>

theorem IsProvisioned_cases:
  "(ProvOrchestrator (Conf c) = ConstOrchestratorOnPremise \<longrightarrow>
      IsProvisioned run prun c = (True, c)) \<and>
   (ProvOrchestrator (Conf c) \<noteq> ConstOrchestratorOnPremise \<and> Hosts (Conf c) = [] \<longrightarrow>
      IsProvisioned run prun c = (False, c)) \<and>
   (ProvOrchestrator (Conf c) \<noteq> ConstOrchestratorOnPremise \<and> Hosts (Conf c) \<noteq> [] \<longrightarrow>
      fst (IsProvisioned run prun c) =
        ((\<forall>db\<in>set (slice_elems (Servers c)). HasProvisionCookie db \<or> run db) \<and>
         (\<forall>px\<in>set (Proxies c). Proxy_HasProvisionCookie px \<or> prun px)) \<and>
      (fst (IsProvisioned run prun c) \<longrightarrow>
         (\<forall>db\<in>set (slice_elems (Servers (snd (IsProvisioned run prun c)))).
            HasProvisionCookie db) \<and>
         (\<forall>px\<in>set (Proxies (snd (IsProvisioned run prun c))).
            Proxy_HasProvisionCookie px)))"
proof -
  let ?dbs = "provision_loop HasProvisionCookie run SetProvisionCookie (slice_elems (Servers c))"
  let ?pxs = "provision_loop Proxy_HasProvisionCookie prun Proxy_SetProvisionCookie (Proxies c)"
  have a: "ProvOrchestrator (Conf c) = ConstOrchestratorOnPremise \<Longrightarrow>
      IsProvisioned run prun c = (True, c)"
    by (simp add: IsProvisioned_def)
  have b: "ProvOrchestrator (Conf c) \<noteq> ConstOrchestratorOnPremise \<Longrightarrow> Hosts (Conf c) = [] \<Longrightarrow>
      IsProvisioned run prun c = (False, c)"
    by (simp add: IsProvisioned_def)
  have d: "fst (IsProvisioned run prun c) = (fst ?dbs \<and> fst ?pxs)"
    if "ProvOrchestrator (Conf c) \<noteq> ConstOrchestratorOnPremise" "Hosts (Conf c) \<noteq> []"
    using that by (auto simp add: IsProvisioned_def Let_def split: prod.splits)
  have e: "slice_elems (Servers (snd (IsProvisioned run prun c))) = snd ?dbs
           \<and> Proxies (snd (IsProvisioned run prun c)) = snd ?pxs"
    if "ProvOrchestrator (Conf c) \<noteq> ConstOrchestratorOnPremise" "Hosts (Conf c) \<noteq> []"
       "fst (IsProvisioned run prun c)"
  proof (cases "Servers c")
    case None
    then show ?thesis using that
      by (auto simp add: IsProvisioned_def Let_def slice_elems_def split: prod.splits if_splits)
  next
    case (Some dbs)
    then show ?thesis using that
      by (auto simp add: IsProvisioned_def Let_def slice_elems_def split: prod.splits if_splits)
  qed
  have f: "\<forall>y\<in>set (snd ?dbs). HasProvisionCookie y" if "fst ?dbs"
    using that
    by (intro provision_loop_snd) (simp_all add: HasProvisionCookie_def SetProvisionCookie_def)
  have g: "\<forall>y\<in>set (snd ?pxs). Proxy_HasProvisionCookie y" if "fst ?pxs"
    using that
    by (intro provision_loop_snd)
       (simp_all add: Proxy_HasProvisionCookie_def Proxy_SetProvisionCookie_def)
  show ?thesis
    using a b d e f g by (simp add: provision_loop_fst)
qed

text \<open>
  The three cases at work: an on-premise cluster whose only node is down and has no
  cookie; a cluster with no hosts configured; a cluster whose node and proxy have no
  cookie and are running, so that both get one.
\<close>

theorem IsProvisioned_cases_witness:
  "IsProvisioned example_IsRunning example_Proxy_IsRunning
     (example_cluster (example_conf ConstOrchestratorOnPremise ''db1'' [])
        (Some [(example_node ''db1'' 1 False 3)\<lparr>State := ''Failed''\<rparr>]))
   = (True, example_cluster (example_conf ConstOrchestratorOnPremise ''db1'' [])
        (Some [(example_node ''db1'' 1 False 3)\<lparr>State := ''Failed''\<rparr>])) \<and>
   IsProvisioned example_IsRunning example_Proxy_IsRunning
     (example_cluster (example_conf ''kube'' [] []) (Some []))
   = (False, example_cluster (example_conf ''kube'' [] []) (Some [])) \<and>
   IsProvisioned example_IsRunning example_Proxy_IsRunning
     (example_cluster (example_conf ''kube'' ''db1'' []) (Some [example_node ''db1'' 1 False 3]))
   = (True, (example_cluster (example_conf ''kube'' ''db1'' [])
               (Some [example_node ''db1'' 1 True 3]))
            \<lparr>Proxies := [example_proxy\<lparr>Proxy_ProvisionCookie := True\<rparr>]\<rparr>)"
  using
    IsProvisioned_cases [of "example_cluster (example_conf ConstOrchestratorOnPremise ''db1'' [])
        (Some [(example_node ''db1'' 1 False 3)\<lparr>State := ''Failed''\<rparr>])"
      example_IsRunning example_Proxy_IsRunning]
    IsProvisioned_cases [of "example_cluster (example_conf ''kube'' [] []) (Some [])"
      example_IsRunning example_Proxy_IsRunning]
    IsProvisioned_cases [of "example_cluster (example_conf ''kube'' ''db1'' [])
        (Some [example_node ''db1'' 1 False 3])"
      example_IsRunning example_Proxy_IsRunning]
  by (simp add: IsProvisioned_def example_cluster_def example_conf_def example_node_def
      example_proxy_def example_IsRunning_def example_Proxy_IsRunning_def
      ConstOrchestratorOnPremise_def slice_elems_def HasProvisionCookie_def
      SetProvisionCookie_def Proxy_HasProvisionCookie_def Proxy_SetProvisionCookie_def)

text \<open>
  C1 as stated fails: with a backend other than on-premise and the empty hosts list,
  \<open>IsProvisioned\<close> returns false, not true.
\<close>

theorem IsProvisioned_no_hosts_counterexample:
  "ProvOrchestrator (Conf (example_cluster (example_conf ''kube'' [] []) (Some [])))
     \<noteq> ConstOrchestratorOnPremise \<and>
   Hosts (Conf (example_cluster (example_conf ''kube'' [] []) (Some []))) = [] \<and>
   fst (IsProvisioned example_IsRunning example_Proxy_IsRunning
          (example_cluster (example_conf ''kube'' [] []) (Some []))) = False"
  by (simp add: IsProvisioned_def example_cluster_def example_conf_def
      ConstOrchestratorOnPremise_def)

text \<open>
  On a node collection that is absent (nil) the guard of \<open>HasAllDbUp\<close>,
  \<open>HasRequestDBRollingRestart\<close> and \<open>HasRequestDBRollingReprov\<close> fires: all
  three return false.
\<close>

lemma absent_node_set_predicates:
  "Servers cluster = None \<Longrightarrow>
     \<not> HasAllDbUp cluster \<and> \<not> HasRequestDBRollingRestart cluster \<and>
     \<not> HasRequestDBRollingReprov cluster"
  by (simp add: HasAllDbUp_def HasRequestDBRollingRestart_def HasRequestDBRollingReprov_def)

text \<open>
  C2. For every cluster whose node set is empty, absent or present but empty,
  \<open>HasAllDbUp\<close>, \<open>HasRequestDBRollingRestart\<close> and \<open>HasRequestDBRollingReprov\<close>
  are to return false. The code does not: the guard compares the collection with nil
  only, so on a collection that is present and empty the guard does not fire, the loop
  runs no iteration, and each of the three functions returns true.
\<close>

theorem present_empty_node_set_returns_true:
  "Servers (example_cluster (example_conf ''kube'' ''db1'' []) (Some [])) = Some [] \<and>
   slice_elems (Servers (example_cluster (example_conf ''kube'' ''db1'' []) (Some []))) = [] \<and>
   HasAllDbUp (example_cluster (example_conf ''kube'' ''db1'' []) (Some [])) = True \<and>
   HasRequestDBRollingRestart (example_cluster (example_conf ''kube'' ''db1'' []) (Some []))
     = True \<and>
   HasRequestDBRollingReprov (example_cluster (example_conf ''kube'' ''db1'' []) (Some []))
     = True"
  by (simp add: example_cluster_def slice_elems_def HasAllDbUp_def
      HasRequestDBRollingRestart_def HasRequestDBRollingReprov_def)

text \<open>
  C4. In a cluster of at least two nodes that all carry the restart cookie,
  \<open>HasRequestDBRollingRestart\<close> is true; once the cookie of one node, at any position
  \<open>i\<close>, is cleared, \<open>HasRequestDBRollingRestart\<close> is false and \<open>HasRequestDBRestart\<close>
  is still true.
\<close>

theorem rolling_restart_all_but_one:
  assumes "Servers cluster = Some ss"
    and "2 \<le> length ss"
    and "\<forall>s\<in>set ss. HasRestartCookie s"
    and "i < length ss"
  shows "HasRequestDBRollingRestart cluster \<and>
         \<not> HasRequestDBRollingRestart
             (cluster\<lparr>Servers := Some (ss[i := (ss ! i)\<lparr>RestartCookie := False\<rparr>])\<rparr>) \<and>
         HasRequestDBRestart
             (cluster\<lparr>Servers := Some (ss[i := (ss ! i)\<lparr>RestartCookie := False\<rparr>])\<rparr>)"
proof -
  let ?ss' = "ss[i := (ss ! i)\<lparr>RestartCookie := False\<rparr>]"
  have all: "HasRequestDBRollingRestart cluster"
    using assms(1,3) by (simp add: HasRequestDBRollingRestart_def rolling_restart_loop_iff)
  have "?ss' ! i \<in> set ?ss'"
    using assms(4) by (metis length_list_update nth_mem)
  moreover have "\<not> HasRestartCookie (?ss' ! i)"
    using assms(4) by (simp add: HasRestartCookie_def)
  ultimately have one: "\<not> rolling_restart_loop True ?ss'"
    unfolding rolling_restart_loop_iff by blast
  define j where "j = (if i = 0 then 1 else (0::nat))"
  have j: "j < length ss" "j \<noteq> i"
    using assms(2) by (auto simp add: j_def)
  then have "?ss' ! j = ss ! j" by simp
  moreover have "HasRestartCookie (ss ! j)" using assms(3) j(1) by simp
  moreover have "?ss' ! j \<in> set ?ss'" using j(1) by (metis length_list_update nth_mem)
  ultimately have ex: "restart_loop ?ss'"
    unfolding restart_loop_iff by metis
  show ?thesis
    using all one ex by (simp add: HasRequestDBRollingRestart_def HasRequestDBRestart_def)
qed

theorem rolling_restart_all_but_one_witness:
  "HasRequestDBRollingRestart
     (example_cluster (example_conf ''kube'' ''db1,db2'' [])
        (Some [example_node ''db1'' 1 True 3, example_node ''db2'' 2 True 3])) \<and>
   \<not> HasRequestDBRollingRestart
     (example_cluster (example_conf ''kube'' ''db1,db2'' [])
        (Some [example_node ''db1'' 1 True 3,
               (example_node ''db2'' 2 True 3)\<lparr>RestartCookie := False\<rparr>])) \<and>
   HasRequestDBRestart
     (example_cluster (example_conf ''kube'' ''db1,db2'' [])
        (Some [example_node ''db1'' 1 True 3,
               (example_node ''db2'' 2 True 3)\<lparr>RestartCookie := False\<rparr>]))"
proof -
  let ?ss = "[example_node ''db1'' 1 True 3, example_node ''db2'' 2 True 3]"
  let ?c = "example_cluster (example_conf ''kube'' ''db1,db2'' []) (Some ?ss)"
  have h1: "Servers ?c = Some ?ss" by (simp add: example_cluster_def)
  have h2: "2 \<le> length ?ss" by simp
  have h3: "\<forall>s\<in>set ?ss. HasRestartCookie s"
    by (simp add: HasRestartCookie_def example_node_def)
  have h4: "1 < length ?ss" by simp
  show ?thesis
    using rolling_restart_all_but_one [OF h1 h2 h3 h4] by (simp add: example_cluster_def)
qed

text \<open>
  C8 (amended). \<open>IsInIgnoredHosts\<close> returns true exactly when the URL or the name of
  the node is one of the pieces that splitting the configured ignore list at its commas
  gives. The empty list splits into one piece, the empty string: with it the predicate
  is true exactly for a node whose URL or name is empty, and false for every node
  whose URL and name are both non-empty.
\<close>

theorem IsInIgnoredHosts_iff:
  "IsInIgnoredHosts cluster server =
     (URL server \<in> set (strings_Split (IgnoreSrv (Conf cluster)) CHR '','') \<or>
      Name server \<in> set (strings_Split (IgnoreSrv (Conf cluster)) CHR '','')) \<and>
   (IgnoreSrv (Conf cluster) = [] \<longrightarrow>
      IsInIgnoredHosts cluster server = (URL server = [] \<or> Name server = []))"
  by (auto simp add: IsInIgnoredHosts_def host_loop_iff strings_Split_def)

text \<open>The ignore list "db3,db4": the node db3 is in it, the node db5 is not; and no
  named node is in the empty list.\<close>

theorem IsInIgnoredHosts_iff_witness:
  "IsInIgnoredHosts (example_cluster (example_conf ''kube'' ''db1'' ''db3,db4'') None)
     (example_node ''db3'' 3 True 3) \<and>
   \<not> IsInIgnoredHosts (example_cluster (example_conf ''kube'' ''db1'' ''db3,db4'') None)
     (example_node ''db5'' 5 True 3) \<and>
   \<not> IsInIgnoredHosts (example_cluster (example_conf ''kube'' ''db1'' []) None)
     (example_node ''db3'' 3 True 3)"
  using
    IsInIgnoredHosts_iff [of "example_cluster (example_conf ''kube'' ''db1'' ''db3,db4'') None"
      "example_node ''db3'' 3 True 3"]
    IsInIgnoredHosts_iff [of "example_cluster (example_conf ''kube'' ''db1'' ''db3,db4'') None"
      "example_node ''db5'' 5 True 3"]
    IsInIgnoredHosts_iff [of "example_cluster (example_conf ''kube'' ''db1'' []) None"
      "example_node ''db3'' 3 True 3"]
  by (simp add: example_cluster_def example_conf_def example_node_def strings_Split_def)

text \<open>
  C8 as stated fails: with the empty ignore list, a node whose name is the empty string
  is reported as ignored.
\<close>

theorem IsInIgnoredHosts_empty_list_counterexample:
  "IgnoreSrv (Conf (example_cluster (example_conf ''kube'' ''db1'' []) None)) = [] \<and>
   IsInIgnoredHosts (example_cluster (example_conf ''kube'' ''db1'' []) None)
     (example_node [] 9 True 3)"
  by (simp add: IsInIgnoredHosts_def strings_Split_def example_cluster_def example_conf_def
      example_node_def)

text \<open>
  C9. \<open>IsInCaptureMode\<close> returns false for every cluster: with at least one server the
  guard returns false, and with none the loop finds no server in capture mode.
\<close>

theorem IsInCaptureMode_never: "IsInCaptureMode cluster = False"
  by (cases "slice_elems (Servers cluster)") (simp_all add: IsInCaptureMode_def)

text \<open>A monitored cluster with capture enabled whose only node is in capture mode.\<close>

theorem IsInCaptureMode_never_witness:
  "InCaptureMode (example_node ''db1'' 1 True 3) \<and>
   \<not> IsInCaptureMode (example_cluster (example_conf ''kube'' ''db1'' [])
        (Some [example_node ''db1'' 1 True 3])) \<and>
   \<not> IsInCaptureMode (example_cluster (example_conf ''kube'' ''db1'' []) (Some []))"
  using
    IsInCaptureMode_never [of "example_cluster (example_conf ''kube'' ''db1'' [])
        (Some [example_node ''db1'' 1 True 3])"]
    IsInCaptureMode_never [of "example_cluster (example_conf ''kube'' ''db1'' []) (Some [])"]
  by (simp add: example_node_def)

section \<open>The accessors of a node\<close>

text \<open>
  C7. \<open>GetSlaveStatus\<close> returns a replication status record of the node whose channel
  name is the given name when the node has one, and the error "Empty replications
  channels", and no record, when the node has no records or none has that name.
\<close>

theorem GetSlaveStatus_lookup:
  "((\<exists>r\<in>set (slice_elems (Replications server)). NullString_String (ConnectionName r) = name) \<longrightarrow>
      (\<exists>r. GetSlaveStatus server name = Inr r \<and> r \<in> set (slice_elems (Replications server)) \<and>
           NullString_String (ConnectionName r) = name)) \<and>
   (\<not> (\<exists>r\<in>set (slice_elems (Replications server)). NullString_String (ConnectionName r) = name) \<longrightarrow>
      GetSlaveStatus server name = Inl (errors_New ''Empty replications channels''))"
proof (cases "Replications server")
  case None
  then show ?thesis by (simp add: GetSlaveStatus_def slice_elems_def)
next
  case reps: (Some reps)
  show ?thesis
  proof (cases "slave_status_loop reps name")
    case None
    then have "\<forall>ss\<in>set reps. NullString_String (ConnectionName ss) \<noteq> name"
      by (simp add: slave_status_loop_None)
    with None reps show ?thesis
      by (simp add: GetSlaveStatus_def slice_elems_def)
  next
    case (Some ss)
    with slave_status_loop_Some [OF Some] reps show ?thesis
      by (auto simp add: GetSlaveStatus_def slice_elems_def)
  qed
qed

text \<open>
  A node with one record, on the default channel: the lookup of that channel gives the
  record, the lookup of another channel and the lookup on a node without records fail.
\<close>

theorem GetSlaveStatus_lookup_witness:
  "GetSlaveStatus (example_node ''db1'' 1 True 3) [] = Inr (example_channel 3) \<and>
   GetSlaveStatus (example_node ''db1'' 1 True 3) ''backup''
     = Inl (errors_New ''Empty replications channels'') \<and>
   GetSlaveStatus ((example_node ''db1'' 1 True 3)\<lparr>Replications := None\<rparr>) []
     = Inl (errors_New ''Empty replications channels'')"
  using
    GetSlaveStatus_lookup [of "example_node ''db1'' 1 True 3" "[]"]
    GetSlaveStatus_lookup [of "example_node ''db1'' 1 True 3" "''backup''"]
    GetSlaveStatus_lookup [of "(example_node ''db1'' 1 True 3)\<lparr>Replications := None\<rparr>" "[]"]
  by (simp add: example_node_def example_channel_def slice_elems_def)

text \<open>
  C6 (amended). \<open>GetReplicationDelay\<close> returns 0 when the channel lookup fails or the
  seconds-behind-upstream measurement is absent, and the exact reported value when a
  measurement is present. The value is not clamped: the result is negative exactly when
  a measurement is present and is itself negative, so it is never negative for
  measurements that are not.
\<close>

theorem GetReplicationDelay_cases:
  "(\<forall>e. GetSlaveStatus server (ReplicationSourceName server) = Inl e \<longrightarrow>
        GetReplicationDelay server = 0) \<and>
   (\<forall>ss. GetSlaveStatus server (ReplicationSourceName server) = Inr ss \<longrightarrow>
        GetReplicationDelay server =
          (if NullInt64_Valid (SecondsBehindMaster ss)
           then NullInt64_Int64 (SecondsBehindMaster ss) else 0)) \<and>
   (sint (GetReplicationDelay server) < 0) =
      (\<exists>ss. GetSlaveStatus server (ReplicationSourceName server) = Inr ss \<and>
            NullInt64_Valid (SecondsBehindMaster ss) \<and>
            sint (NullInt64_Int64 (SecondsBehindMaster ss)) < 0)"
  by (cases "GetSlaveStatus server (ReplicationSourceName server)")
     (simp_all add: GetReplicationDelay_def)

text \<open>A node three seconds behind, and a node without replication records.\<close>

theorem GetReplicationDelay_cases_witness:
  "GetReplicationDelay (example_node ''db1'' 1 True 3) = 3 \<and>
   GetReplicationDelay ((example_node ''db1'' 1 True 3)\<lparr>Replications := None\<rparr>) = 0"
  using
    GetReplicationDelay_cases [of "example_node ''db1'' 1 True 3"]
    GetReplicationDelay_cases [of "(example_node ''db1'' 1 True 3)\<lparr>Replications := None\<rparr>"]
  by (simp add: GetSlaveStatus_def example_node_def example_channel_def)

text \<open>
  C6 as stated fails: a record whose measurement is present and is \<open>-1\<close> makes
  \<open>GetReplicationDelay\<close> return \<open>-1\<close>.
\<close>

theorem GetReplicationDelay_negative_counterexample:
  "GetReplicationDelay (example_node ''db1'' 1 True (- 1)) = - 1 \<and>
   sint (GetReplicationDelay (example_node ''db1'' 1 True (- 1))) < 0"
  by (simp add: GetReplicationDelay_def GetSlaveStatus_def example_node_def
      example_channel_def)

text \<open>
  C5 (amended). Let A be a node of the cluster and let A and the node B be the only
  nodes of the cluster that report A's upstream server identifier. If \<open>GetSibling\<close> of
  A resolves to B, then B is a node of the cluster with another server identifier than
  A, and \<open>GetSibling\<close> of B resolves to A.
\<close>

theorem GetSibling_symmetric_pair:
  assumes "A \<in> set (slice_elems (Servers c))"
    and "GetSibling c A = Some B"
    and "\<forall>x\<in>set (slice_elems (Servers c)). \<forall>sx sa.
           GetSlaveStatus x (ReplicationSourceName x) = Inr sx \<longrightarrow>
           GetSlaveStatus A (ReplicationSourceName A) = Inr sa \<longrightarrow>
           MasterServerID sx = MasterServerID sa \<longrightarrow> x = A \<or> x = B"
  shows "B \<in> set (slice_elems (Servers c)) \<and> ServerID B \<noteq> ServerID A \<and>
         GetSibling c B = Some A"
proof -
  let ?xs = "slice_elems (Servers c)"
  obtain sa where sa: "GetSlaveStatus A (ReplicationSourceName A) = Inr sa"
    and loopA: "sibling_loop A sa ?xs = Some B"
    using assms(2) by (auto simp add: GetSibling_def split: sum.splits)
  from sibling_loop_Some [OF loopA]
  obtain sb where B: "B \<in> set ?xs" "ServerID B \<noteq> ServerID A"
    and sb: "GetSlaveStatus B (ReplicationSourceName B) = Inr sb"
    and same: "MasterServerID sb = MasterServerID sa"
    by blast
  have "sibling_loop B sb ?xs = Some A"
  proof (cases "sibling_loop B sb ?xs")
    case None
    from sibling_loop_None [OF None assms(1) sa] same B(2) show ?thesis by simp
  next
    case (Some x)
    from sibling_loop_Some [OF Some]
    obtain sx where x: "x \<in> set ?xs" "ServerID x \<noteq> ServerID B"
      and sx: "GetSlaveStatus x (ReplicationSourceName x) = Inr sx"
      and "MasterServerID sx = MasterServerID sb"
      by blast
    then have "MasterServerID sx = MasterServerID sa" using same by simp
    with assms(3) x(1) sx sa have "x = A \<or> x = B" by blast
    with x(2) have "x = A" by auto
    with Some show ?thesis by simp
  qed
  then show ?thesis using B sb by (simp add: GetSibling_def)
qed

text \<open>Two replicas of the upstream 7: each is the sibling of the other.\<close>

theorem GetSibling_symmetric_pair_witness:
  "GetSibling (example_cluster (example_conf ''kube'' ''db1,db2'' [])
        (Some [example_node ''db1'' 1 True 3, example_node ''db2'' 2 True 3]))
     (example_node ''db1'' 1 True 3) = Some (example_node ''db2'' 2 True 3) \<and>
   GetSibling (example_cluster (example_conf ''kube'' ''db1,db2'' [])
        (Some [example_node ''db1'' 1 True 3, example_node ''db2'' 2 True 3]))
     (example_node ''db2'' 2 True 3) = Some (example_node ''db1'' 1 True 3)"
proof -
  let ?A = "example_node ''db1'' 1 True 3"
  let ?B = "example_node ''db2'' 2 True 3"
  let ?c = "example_cluster (example_conf ''kube'' ''db1,db2'' []) (Some [?A, ?B])"
  have xs: "slice_elems (Servers ?c) = [?A, ?B]"
    by (simp add: example_cluster_def slice_elems_def)
  have h1: "?A \<in> set (slice_elems (Servers ?c))"
    unfolding xs by simp
  have h2: "GetSibling ?c ?A = Some ?B"
    unfolding GetSibling_def xs
    by (simp add: GetSlaveStatus_def example_node_def example_channel_def)
  have h3: "\<forall>x\<in>set (slice_elems (Servers ?c)). \<forall>sx sa.
           GetSlaveStatus x (ReplicationSourceName x) = Inr sx \<longrightarrow>
           GetSlaveStatus ?A (ReplicationSourceName ?A) = Inr sa \<longrightarrow>
           MasterServerID sx = MasterServerID sa \<longrightarrow> x = ?A \<or> x = ?B"
    unfolding xs by simp
  show ?thesis
    using GetSibling_symmetric_pair [OF h1 h2 h3] h2 by simp
qed

text \<open>
  C5 as stated fails: with three replicas of the upstream 7 in the order db2, db3, db1,
  the sibling of db1 is db2, the first node of the cluster with another server
  identifier, and the sibling of db2 is db3, not db1.
\<close>

theorem GetSibling_three_replicas_counterexample:
  "GetReplicationServerID (example_node ''db1'' 1 True 3)
     = GetReplicationServerID (example_node ''db2'' 2 True 3) \<and>
   example_node ''db1'' 1 True 3 \<noteq> example_node ''db2'' 2 True 3 \<and>
   GetSibling (example_cluster (example_conf ''kube'' ''db1,db2,db3'' [])
        (Some [example_node ''db2'' 2 True 3, example_node ''db3'' 3 True 3,
               example_node ''db1'' 1 True 3]))
     (example_node ''db1'' 1 True 3) = Some (example_node ''db2'' 2 True 3) \<and>
   GetSibling (example_cluster (example_conf ''kube'' ''db1,db2,db3'' [])
        (Some [example_node ''db2'' 2 True 3, example_node ''db3'' 3 True 3,
               example_node ''db1'' 1 True 3]))
     (example_node ''db2'' 2 True 3) = Some (example_node ''db3'' 3 True 3) \<and>
   GetSibling (example_cluster (example_conf ''kube'' ''db1,db2,db3'' [])
        (Some [example_node ''db2'' 2 True 3, example_node ''db3'' 3 True 3,
               example_node ''db1'' 1 True 3]))
     (example_node ''db2'' 2 True 3) \<noteq> Some (example_node ''db1'' 1 True 3)"
  by (simp add: GetSibling_def GetReplicationServerID_def GetSlaveStatus_def
      example_cluster_def example_node_def example_channel_def slice_elems_def)

lemma metric_line_Inr:
  "(\<exists>l. metric_line m = Inr l) =
     (3 \<le> length (strings_Split (Metric_Name m) CHR ''.'') \<and>
      (strings_Split (Metric_Name m) CHR ''.'' ! 2 = ''pfs'' \<longrightarrow>
         4 \<le> length (strings_Split (Metric_Name m) CHR ''.'')))"
  by (auto simp add: metric_line_def index_def Let_def split: sum.splits if_splits)

lemma prometheus_loop_Inr:
  "(\<exists>r. prometheus_loop s metrics = Inr r) = (\<forall>m\<in>set metrics. \<exists>l. metric_line m = Inr l)"
proof (induction metrics arbitrary: s)
  case Nil
  then show ?case by simp
next
  case (Cons m metrics)
  show ?case
  proof (cases "metric_line m")
    case (Inl p)
    then show ?thesis by simp
  next
    case (Inr l)
    then show ?thesis using Cons.IH [of "s @ l"] by simp
  qed
qed

text \<open>
  C10. \<open>GetPrometheusMetrics\<close> indexes the dot-separated fields of each metric name
  without a bounds check. It returns a string, with every index in bounds, exactly when
  the name of every metric has at least three fields, and at least four when the third
  is "pfs"; as soon as one metric does not, the call panics with an index out of range.
\<close>

theorem GetPrometheusMetrics_in_bounds_iff:
  "((\<exists>s. GetPrometheusMetrics metrics = Inr s) =
      (\<forall>m\<in>set metrics.
         3 \<le> length (strings_Split (Metric_Name m) CHR ''.'') \<and>
         (strings_Split (Metric_Name m) CHR ''.'' ! 2 = ''pfs'' \<longrightarrow>
            4 \<le> length (strings_Split (Metric_Name m) CHR ''.'')))) \<and>
   ((\<exists>m\<in>set metrics.
         \<not> (3 \<le> length (strings_Split (Metric_Name m) CHR ''.'') \<and>
            (strings_Split (Metric_Name m) CHR ''.'' ! 2 = ''pfs'' \<longrightarrow>
               4 \<le> length (strings_Split (Metric_Name m) CHR ''.'')))) \<longrightarrow>
      GetPrometheusMetrics metrics = Inl IndexOutOfRange)"
proof -
  have iff: "(\<exists>s. GetPrometheusMetrics metrics = Inr s) =
      (\<forall>m\<in>set metrics.
         3 \<le> length (strings_Split (Metric_Name m) CHR ''.'') \<and>
         (strings_Split (Metric_Name m) CHR ''.'' ! 2 = ''pfs'' \<longrightarrow>
            4 \<le> length (strings_Split (Metric_Name m) CHR ''.'')))"
    unfolding GetPrometheusMetrics_def prometheus_loop_Inr metric_line_Inr ..
  have "GetPrometheusMetrics metrics = Inl IndexOutOfRange"
    if "\<not> (\<exists>s. GetPrometheusMetrics metrics = Inr s)"
  proof (cases "GetPrometheusMetrics metrics")
    case (Inl p)
    then show ?thesis by (cases p) simp
  next
    case (Inr s)
    with that show ?thesis by simp
  qed
  with iff show ?thesis by blast
qed

text \<open>
  Two metrics with enough fields give two lines. A name of two fields, and a "pfs" name
  of three, panic, also after a metric that is in order.
\<close>

theorem GetPrometheusMetrics_in_bounds_iff_witness:
  "GetPrometheusMetrics
     [example_metric ''mysql.db1.pfs.file_io'', example_metric ''mysql.db1.uptime'']
     = Inr (''pfs_file_io{instance='' @ [CHR 0x22] @ ''db1'' @ [CHR 0x22] @ ''} 1'' @ [CHR 0x0A]
            @ ''uptime{instance='' @ [CHR 0x22] @ ''db1'' @ [CHR 0x22] @ ''} 1'' @ [CHR 0x0A]) \<and>
   GetPrometheusMetrics [example_metric ''mysql.db1.uptime'', example_metric ''mysql.uptime'']
     = Inl IndexOutOfRange \<and>
   GetPrometheusMetrics [example_metric ''mysql.db1.pfs''] = Inl IndexOutOfRange"
  using
    GetPrometheusMetrics_in_bounds_iff
      [of "[example_metric ''mysql.db1.pfs.file_io'', example_metric ''mysql.db1.uptime'']"]
    GetPrometheusMetrics_in_bounds_iff
      [of "[example_metric ''mysql.db1.uptime'', example_metric ''mysql.uptime'']"]
    GetPrometheusMetrics_in_bounds_iff [of "[example_metric ''mysql.db1.pfs'']"]
  by (simp add: GetPrometheusMetrics_def metric_line_def index_def example_metric_def
      strings_Split_def)

lemma DSN_SetDSN: "DSN (SetDSN build s) = build s"
  by (simp add: SetDSN_def)

lemma TLSConfigUsed_SetDSN: "TLSConfigUsed (SetDSN build s) = TLSConfigUsed s"
  by (simp add: SetDSN_def)

text \<open>
  C3 (amended). In a cluster that is not a PostgreSQL one and has TLS certificates,
  when the attempt with the current certificate configuration fails and the retry with
  the old one succeeds, \<open>GetNewDBConn\<close> returns the connection opened with the old
  configuration, its maximal lifetime set to 3595 seconds, and raises the alert
  ERR00080; it then sets the security state of the node back to "Current" and rebuilds
  the connection string from it. The state kept on the node after the call is
  "Current", and the next call starts from "Current" again.
\<close>

theorem GetNewDBConn_old_certificate:
  assumes "\<not> MasterSlavePgStream (Conf c)" and "\<not> MasterSlavePgLogical (Conf c)"
    and "HaveDBTLSCert c"
    and "connect 0 ''mysql'' (DSN server) = Inl err"
    and "connect 1 ''mysql'' (build (server\<lparr>TLSConfigUsed := ConstTLSOldConfig\<rparr>)) = Inr conn"
  shows "GetNewDBConn connect build c server =
           (Inr (SetConnMaxLifetime conn 3595),
            SetDSN build
              ((SetDSN build (server\<lparr>TLSConfigUsed := ConstTLSOldConfig\<rparr>))
                 \<lparr>TLSConfigUsed := ConstTLSCurrentConfig\<rparr>),
            [''ERR00080'']) \<and>
         TLSConfigUsed (fst (snd (GetNewDBConn connect build c server))) = ConstTLSCurrentConfig \<and>
         DSN (fst (snd (GetNewDBConn connect build c server))) =
           build ((SetDSN build (server\<lparr>TLSConfigUsed := ConstTLSOldConfig\<rparr>))
                    \<lparr>TLSConfigUsed := ConstTLSCurrentConfig\<rparr>)"
proof -
  have "GetNewDBConn connect build c server =
           (Inr (SetConnMaxLifetime conn 3595),
            SetDSN build
              ((SetDSN build (server\<lparr>TLSConfigUsed := ConstTLSOldConfig\<rparr>))
                 \<lparr>TLSConfigUsed := ConstTLSCurrentConfig\<rparr>),
            [''ERR00080''])"
    using assms by (simp add: GetNewDBConn_def DSN_SetDSN Let_def)
  then show ?thesis by (simp add: TLSConfigUsed_SetDSN DSN_SetDSN)
qed

text \<open>
  The database that accepts the old certificate only: the call returns the connection
  made with the old connection string and leaves the node on the current one.
\<close>

theorem GetNewDBConn_old_certificate_witness:
  "GetNewDBConn example_connect example_build
     (example_cluster (example_conf ''kube'' ''db1'' []) None) (example_node ''db1'' 1 True 3)
   = (Inr \<lparr>driverName = ''mysql'', dataSourceName = ''db1:3306&tls=tlsconfigold'',
           ConnMaxLifetime = 3595\<rparr>,
      example_node ''db1'' 1 True 3, [''ERR00080'']) \<and>
   TLSConfigUsed (example_node ''db1'' 1 True 3) = ConstTLSCurrentConfig"
proof -
  let ?c = "example_cluster (example_conf ''kube'' ''db1'' []) None"
  let ?s = "example_node ''db1'' 1 True 3"
  have h1: "\<not> MasterSlavePgStream (Conf ?c)" and h2: "\<not> MasterSlavePgLogical (Conf ?c)"
    and h3: "HaveDBTLSCert ?c"
    by (simp_all add: example_cluster_def example_conf_def)
  have h4: "example_connect 0 ''mysql'' (DSN ?s)
              = Inl (errors_New ''x509: certificate signed by unknown authority'')"
    by (simp add: example_connect_def example_node_def)
  have h5: "example_connect 1 ''mysql'' (example_build (?s\<lparr>TLSConfigUsed := ConstTLSOldConfig\<rparr>))
              = Inr \<lparr>driverName = ''mysql'', dataSourceName = ''db1:3306&tls=tlsconfigold'',
                     ConnMaxLifetime = 0\<rparr>"
    by (simp add: example_connect_def example_build_def example_node_def)
  show ?thesis
    using GetNewDBConn_old_certificate
            [where connect = example_connect and build = example_build, OF h1 h2 h3 h4 h5]
    by (simp add: SetDSN_def SetConnMaxLifetime_def example_build_def example_node_def)
qed

text \<open>
  C3 as stated fails: after the current certificate failed and the old one succeeded,
  the security state kept on the node is not "Old".
\<close>

theorem GetNewDBConn_state_counterexample:
  "example_connect 0 ''mysql'' (DSN (example_node ''db1'' 1 True 3))
     = Inl (errors_New ''x509: certificate signed by unknown authority'') \<and>
   example_connect 1 ''mysql''
       (example_build ((example_node ''db1'' 1 True 3)\<lparr>TLSConfigUsed := ConstTLSOldConfig\<rparr>))
     = Inr \<lparr>driverName = ''mysql'', dataSourceName = ''db1:3306&tls=tlsconfigold'',
            ConnMaxLifetime = 0\<rparr> \<and>
   TLSConfigUsed (fst (snd (GetNewDBConn example_connect example_build
       (example_cluster (example_conf ''kube'' ''db1'' []) None)
       (example_node ''db1'' 1 True 3)))) \<noteq> ConstTLSOldConfig"
  by (simp add: GetNewDBConn_def SetDSN_def SetConnMaxLifetime_def example_connect_def
      example_build_def example_cluster_def example_conf_def example_node_def)

end
